theory Spec2Isabelle
  imports Main "HOL-Library.Word"
begin

unbundle bit_operations_syntax

section \<open>Data model of the NEON structural indexer\<close>

text \<open>
  The C code works on \<open>uint8_t\<close>, \<open>uint32_t\<close> and \<open>uint64_t\<close> values; they are words
  of the same width.  \<open>size_t\<close> counters (\<open>i\<close>, \<open>count\<close>, \<open>input_len\<close>,
  \<open>max_output\<close>) are natural numbers: they index a buffer that exists in memory, so
  they stay far below \<open>2 ^ 64\<close>.

  A pointer argument is an option, \<open>None\<close> being \<open>NULL\<close>.  The pair
  \<open>(input, input_len)\<close> is one value: \<open>Some bs\<close> is a non-null pointer to
  \<open>input_len = length bs\<close> readable bytes.  An output array is the memory that starts
  at the pointer, a function from the index to the element stored there; writing
  \<open>positions[count]\<close> is a function update.
\<close>

type_synonym u8 = "8 word"
type_synonym u16 = "16 word"
type_synonym u32 = "32 word"
type_synonym u64 = "64 word"
type_synonym u128 = "128 word"

text \<open>
  \<open>struct NeonContext\<close>: the two scratch buffers are never read or written by the
  indexer, only allocated; a buffer is the number of \<open>uint64_t\<close> it was allocated
  for, \<open>None\<close> while the pointer is still \<open>NULL\<close>.
\<close>

record NeonContext =
  quote_bits :: "nat option"
  string_mask :: "nat option"
  buffer_capacity :: nat

definition ensure_buffers :: "NeonContext \<Rightarrow> nat \<Rightarrow> NeonContext" where
  "ensure_buffers ctx input_len =
     (let num_chunks = (input_len + 63) div 64 in
      if buffer_capacity ctx \<ge> num_chunks then ctx
      else ctx\<lparr>quote_bits := Some num_chunks, string_mask := Some num_chunks,
                buffer_capacity := num_chunks\<rparr>)"

section \<open>Byte classification: \<open>neon_json_classify\<close>\<close>

definition LOOKUP :: "u8 list" where
  "LOOKUP =
    [9, 9, 9, 9, 9, 9, 9, 9, 9, 0, 0, 9, 9, 0, 9, 9,
     9, 9, 9, 9, 9, 9, 9, 9, 9, 9, 9, 9, 9, 9, 9, 9,
     0, 9, 5, 9, 9, 9, 9, 9, 9, 9, 9, 9, 7, 9, 9, 9,
     9, 9, 9, 9, 9, 9, 9, 9, 9, 9, 6, 9, 9, 9, 9, 9,
     9, 9, 9, 9, 9, 9, 9, 9, 9, 9, 9, 9, 9, 9, 9, 9,
     9, 9, 9, 9, 9, 9, 9, 9, 9, 9, 9, 3, 8, 4, 9, 9,
     9, 9, 9, 9, 9, 9, 9, 9, 9, 9, 9, 9, 9, 9, 9, 9,
     9, 9, 9, 9, 9, 9, 9, 9, 9, 9, 9, 1, 9, 2, 9, 9,
     9,9,9,9,9,9,9,9,9,9,9,9,9,9,9,9, 9,9,9,9,9,9,9,9,9,9,9,9,9,9,9,9,
     9,9,9,9,9,9,9,9,9,9,9,9,9,9,9,9, 9,9,9,9,9,9,9,9,9,9,9,9,9,9,9,9,
     9,9,9,9,9,9,9,9,9,9,9,9,9,9,9,9, 9,9,9,9,9,9,9,9,9,9,9,9,9,9,9,9,
     9,9,9,9,9,9,9,9,9,9,9,9,9,9,9,9, 9,9,9,9,9,9,9,9,9,9,9,9,9,9,9,9]"

text \<open>The scalar loop \<open>for (; i < len; i++) output[i] = LOOKUP[input[i]]\<close>.\<close>

function classify_loop :: "u8 list \<Rightarrow> nat \<Rightarrow> (nat \<Rightarrow> u8) \<Rightarrow> (nat \<Rightarrow> u8)" where
  "classify_loop input i output =
     (if i < length input
      then classify_loop input (i + 1) (output(i := LOOKUP ! unat (input ! i)))
      else output)"
  by pat_completeness auto
termination
  by (relation "measure (\<lambda>(input, i, output). length input - i)") auto

declare classify_loop.simps [simp del]

definition neon_json_classify ::
  "u8 list option \<Rightarrow> (nat \<Rightarrow> u8) option \<Rightarrow> int \<times> (nat \<Rightarrow> u8) option" where
  "neon_json_classify input output =
     (case (input, output) of
        (Some inp, Some out) \<Rightarrow>
          if length inp = 0 then (-1, output)
          else (0, Some (classify_loop inp 0 out))
      | _ \<Rightarrow> (-1, output))"

text \<open>
  The classification contract of the specification, written from its words:
  0 whitespace (space, tab, LF, CR), 1 \<open>{\<close>, 2 \<open>}\<close>, 3 \<open>[\<close>, 4 \<open>]\<close>, 5 the double
  quote, 6 colon, 7 comma, 8 backslash, 9 every other byte.
\<close>

definition contract_code :: "u8 \<Rightarrow> u8" where
  "contract_code b =
     (if b = 0x20 \<or> b = 0x09 \<or> b = 0x0A \<or> b = 0x0D then 0
      else if b = 0x7B then 1
      else if b = 0x7D then 2
      else if b = 0x5B then 3
      else if b = 0x5D then 4
      else if b = 0x22 then 5
      else if b = 0x3A then 6
      else if b = 0x2C then 7
      else if b = 0x5C then 8
      else 9)"


section \<open>NEON intrinsics used by the indexer\<close>

text \<open>
  A \<open>uint8x16_t\<close> register is the list of its 16 byte lanes, lane 0 first.  Each
  intrinsic is modelled by what the ARM architecture defines for it.
\<close>

type_synonym uint8x16_t = "u8 list"

definition vdupq_n_u8 :: "u8 \<Rightarrow> uint8x16_t" where
  "vdupq_n_u8 c = replicate 16 c"

text \<open>\<open>vld1q_u8 p\<close> loads the 16 bytes at \<open>p\<close>; \<open>p\<close> is the memory from the pointer on.\<close>

definition vld1q_u8 :: "u8 list \<Rightarrow> uint8x16_t" where
  "vld1q_u8 p = take 16 p"

definition vceqq_u8 :: "uint8x16_t \<Rightarrow> uint8x16_t \<Rightarrow> uint8x16_t" where
  "vceqq_u8 a b = map2 (\<lambda>x y. if x = y then 0xFF else 0x00) a b"

definition vorrq_u8 :: "uint8x16_t \<Rightarrow> uint8x16_t \<Rightarrow> uint8x16_t" where
  "vorrq_u8 a b = map2 (\<lambda>x y. x OR y) a b"

definition vandq_u8 :: "uint8x16_t \<Rightarrow> uint8x16_t \<Rightarrow> uint8x16_t" where
  "vandq_u8 a b = map2 (\<lambda>x y. x AND y) a b"

text \<open>Sums of adjacent lanes, wrapping in 8 bits.\<close>

fun padd :: "u8 list \<Rightarrow> u8 list" where
  "padd (x # y # r) = (x + y) # padd r"
| "padd _ = []"

definition vpaddq_u8 :: "uint8x16_t \<Rightarrow> uint8x16_t \<Rightarrow> uint8x16_t" where
  "vpaddq_u8 a b = padd a @ padd b"

text \<open>
  \<open>vgetq_lane_u16(vreinterpretq_u16_u8(v), 0)\<close>: the first two byte lanes read as one
  little-endian 16-bit lane.
\<close>

definition vgetq_lane_u16_u8_0 :: "uint8x16_t \<Rightarrow> u16" where
  "vgetq_lane_u16_u8_0 v = ucast (v ! 0) OR push_bit 8 (ucast (v ! 1))"

text \<open>
  \<open>vmull_p64\<close>: the carry-less (polynomial) product of two 64-bit values, 128 bits
  wide: the XOR of \<open>b << i\<close> over the set bits \<open>i\<close> of \<open>a\<close>.
\<close>

definition vmull_p64 :: "u64 \<Rightarrow> u64 \<Rightarrow> u128" where
  "vmull_p64 a b =
     fold (\<lambda>i acc. if bit a i then acc XOR push_bit i (ucast b) else acc) [0..<64] 0"

text \<open>
  The compiler builtins.  \<open>__builtin_ctzll\<close> is undefined at 0 in C; the code calls it
  on non-zero values only, and the model gives 64 there.
\<close>

definition ctzll :: "u64 \<Rightarrow> nat" where
  "ctzll x = length (takeWhile (\<lambda>i. \<not> bit x i) [0..<64])"

definition parityll :: "u64 \<Rightarrow> u64" where
  "parityll x = (if odd (length (filter (bit x) [0..<64])) then 1 else 0)"

section \<open>The chunk classifier\<close>

definition shift_vals :: "u8 list" where
  "shift_vals = [0x01, 0x02, 0x04, 0x08, 0x10, 0x20, 0x40, 0x80,
                 0x01, 0x02, 0x04, 0x08, 0x10, 0x20, 0x40, 0x80]"

definition neon_movemask_16 :: "uint8x16_t \<Rightarrow> u64" where
  "neon_movemask_16 v =
     (let shift_mask = vld1q_u8 shift_vals;
          masked = vandq_u8 v shift_mask;
          paired = vpaddq_u8 masked masked;
          paired = vpaddq_u8 paired paired;
          paired = vpaddq_u8 paired paired
      in ucast (vgetq_lane_u16_u8_0 paired))"

text \<open>One round of the loop \<open>for (int i = 0; i < 4; i++)\<close> of \<open>classify_chunk_64\<close>.\<close>

definition classify_lane :: "u8 list \<Rightarrow> nat \<Rightarrow> u64 \<times> u64 \<times> u64 \<Rightarrow> u64 \<times> u64 \<times> u64" where
  "classify_lane input i acc =
     (case acc of (structural, quotes, backslashes) \<Rightarrow>
      let chunk = vld1q_u8 (drop (i * 16) input);
          is_quote = vceqq_u8 chunk (vdupq_n_u8 0x22);
          is_backslash = vceqq_u8 chunk (vdupq_n_u8 0x5C);
          is_brace_o = vceqq_u8 chunk (vdupq_n_u8 0x7B);
          is_brace_c = vceqq_u8 chunk (vdupq_n_u8 0x7D);
          is_brack_o = vceqq_u8 chunk (vdupq_n_u8 0x5B);
          is_brack_c = vceqq_u8 chunk (vdupq_n_u8 0x5D);
          is_colon = vceqq_u8 chunk (vdupq_n_u8 0x3A);
          is_comma = vceqq_u8 chunk (vdupq_n_u8 0x2C);
          struct_mask = vorrq_u8 is_brace_o is_brace_c;
          struct_mask = vorrq_u8 struct_mask is_brack_o;
          struct_mask = vorrq_u8 struct_mask is_brack_c;
          struct_mask = vorrq_u8 struct_mask is_colon;
          struct_mask = vorrq_u8 struct_mask is_comma;
          struct_mask = vorrq_u8 struct_mask is_quote
      in (structural OR push_bit (i * 16) (neon_movemask_16 struct_mask),
          quotes OR push_bit (i * 16) (neon_movemask_16 is_quote),
          backslashes OR push_bit (i * 16) (neon_movemask_16 is_backslash)))"

definition classify_chunk_64 :: "u8 list \<Rightarrow> u64 \<times> u64 \<times> u64" where
  "classify_chunk_64 input = fold (classify_lane input) [0..<4] (0, 0, 0)"

section \<open>Prefix XOR and the escape analysis\<close>

definition prefix_xor :: "u64 \<Rightarrow> u64" where
  "prefix_xor m = ucast (vmull_p64 m 0xFFFFFFFFFFFFFFFF)"

lemma count_run_decreases:
  "temp AND 1 \<noteq> 0 \<Longrightarrow> unat (drop_bit 1 temp) < unat (temp :: u64)"
proof -
  assume "temp AND 1 \<noteq> 0"
  then have "temp \<noteq> 0" by auto
  then have "0 < unat temp" by (simp add: unat_gt_0)
  then show ?thesis by (simp add: unat_drop_bit_eq drop_bit_eq_div unat_div)
qed

text \<open>The inner loop \<open>while (temp & 1) { count++; temp >>= 1; }\<close>.\<close>

function count_run :: "u64 \<Rightarrow> nat \<Rightarrow> nat" where
  "count_run temp count =
     (if temp AND 1 \<noteq> 0 then count_run (drop_bit 1 temp) (count + 1) else count)"
  by pat_completeness auto
termination
  by (relation "measure (\<lambda>(temp, count). unat temp)") (use count_run_decreases in auto)

declare count_run.simps [simp del]

lemma ctzll_props:
  assumes "x \<noteq> 0"
  shows "ctzll x < 64" and "bit x (ctzll x)" and "\<forall>j<ctzll x. \<not> bit x j"
proof -
  from assms obtain n where n: "bit x n" by (auto simp: bit_eq_iff)
  then have n64: "n < 64" using bit_imp_le_length [of x n] by simp
  have ex: "\<exists>i\<in>set [0..<64]. \<not> \<not> bit x i" using n n64 by auto
  have ne: "takeWhile (\<lambda>i. \<not> bit x i) [0..<64] \<noteq> [0..<64]"
    using ex by (simp only: takeWhile_eq_all_conv) blast
  have "length (takeWhile (\<lambda>i. \<not> bit x i) [0..<64]) \<noteq> length [0..<64]"
    using ne takeWhile_eq_take [of "\<lambda>i. \<not> bit x i" "[0..<64]"] by (metis take_all order_refl)
  then have lt: "length (takeWhile (\<lambda>i. \<not> bit x i) [0..<64]) < length [0..<64]"
    using length_takeWhile_le [of "\<lambda>i. \<not> bit x i" "[0..<64]"] by linarith
  then show a: "ctzll x < 64" by (simp add: ctzll_def)
  have "\<not> \<not> bit x ([0..<64] ! length (takeWhile (\<lambda>i. \<not> bit x i) [0..<64]))"
    using lt by (rule nth_length_takeWhile)
  then show "bit x (ctzll x)" using a by (simp add: ctzll_def del: upt_rec_numeral)
  show "\<forall>j<ctzll x. \<not> bit x j"
  proof (intro allI impI)
    fix j assume j: "j < ctzll x"
    then have jl: "j < length (takeWhile (\<lambda>i. \<not> bit x i) [0..<64])" by (simp add: ctzll_def)
    then have "takeWhile (\<lambda>i. \<not> bit x i) [0..<64] ! j \<in> set (takeWhile (\<lambda>i. \<not> bit x i) [0..<64])"
      by (rule nth_mem)
    moreover have "takeWhile (\<lambda>i. \<not> bit x i) [0..<64] ! j = [0..<64] ! j"
      using jl by (rule takeWhile_nth)
    ultimately have "\<not> bit x ([0..<64] ! j)" using set_takeWhileD by metis
    then show "\<not> bit x j" using j a by (simp del: upt_rec_numeral)
  qed
qed

lemma and_one_bit0: "(w :: u64) AND 1 \<noteq> 0 \<longleftrightarrow> bit w 0"
  by (simp add: and_one_eq bit_0 mod_2_eq_odd)

lemma count_run_props:
  "\<exists>n. count_run temp c = c + n \<and> (\<forall>j<n. bit temp j) \<and> \<not> bit temp n"
proof (induction temp c rule: count_run.induct)
  case (1 temp count)
  show ?case
  proof (cases "temp AND 1 \<noteq> 0")
    case True
    from "1.IH" [OF True] obtain n where
      n: "count_run (drop_bit 1 temp) (count + 1) = count + 1 + n"
         "\<forall>j<n. bit (drop_bit 1 temp) j" "\<not> bit (drop_bit 1 temp) n" by blast
    have b0: "bit temp 0" using True by (simp add: and_one_bit0)
    have "\<forall>j<Suc n. bit temp j"
    proof (intro allI impI)
      fix j assume "j < Suc n"
      show "bit temp j"
      proof (cases j)
        case 0 then show ?thesis using b0 by simp
      next
        case (Suc k)
        with \<open>j < Suc n\<close> n(2) have "bit (drop_bit 1 temp) k" by simp
        then show ?thesis using Suc by (simp add: bit_drop_bit_eq)
      qed
    qed
    moreover have "\<not> bit temp (Suc n)" using n(3) by (simp add: bit_drop_bit_eq)
    moreover have "count_run temp count = count + Suc n"
      using True n(1) by (subst count_run.simps) simp
    ultimately show ?thesis by blast
  next
    case False
    then have "\<not> bit temp 0" by (simp add: and_one_bit0)
    moreover have "count_run temp count = count" using False by (subst count_run.simps) simp
    ultimately show ?thesis by (intro exI [of _ 0]) simp
  qed
qed

lemma bit_imp_push_bit_le: "bit (w::u64) n \<Longrightarrow> push_bit n 1 \<le> w"
proof -
  assume b: "bit w n"
  then have n: "n < 64" using bit_imp_le_length [of w n] by simp
  have "bit (unat w) n" using b by (simp add: bit_unsigned_iff)
  then have "2 ^ n \<le> unat w"
    by (metis bit_iff_odd div_less even_zero not_le)
  moreover have "unat (push_bit n 1 :: u64) = 2 ^ n"
    using n by (simp only: unsigned_push_bit_eq) (simp add: take_bit_nat_eq_self)
  ultimately show ?thesis by (simp add: word_le_nat_alt)
qed

lemma clear_top_decreases:
  assumes "bit (w::u64) n"
  shows "unat (w AND (w - push_bit n 1)) < unat w"
proof -
  from assms have n: "n < 64" using bit_imp_le_length [of w n] by simp
  have le: "push_bit n 1 \<le> w" using assms by (rule bit_imp_push_bit_le)
  have pos: "0 < unat (push_bit n 1 :: u64)" using n by (simp add: unat_gt_0)
  have "w AND (w - push_bit n 1) \<le> w - push_bit n 1" by (rule word_and_le1)
  then have "unat (w AND (w - push_bit n 1)) \<le> unat (w - push_bit n 1)"
    by (simp add: word_le_nat_alt)
  also have "\<dots> = unat w - unat (push_bit n 1 :: u64)" using le by (simp add: unat_sub)
  also have "\<dots> < unat w" using pos le by (simp add: word_le_nat_alt)
  finally show ?thesis .
qed

text \<open>
  The top bit of the lowest run of ones of a non-zero \<open>seq\<close>, as the outer loop of
  \<open>find_odd_backslash_sequences\<close> computes it, is a set bit of \<open>seq\<close>.
\<close>

lemma run_top_bit:
  assumes "seq \<noteq> 0"
  shows "bit seq (ctzll seq + count_run (drop_bit (ctzll seq) seq) 0 - 1)"
proof -
  obtain n where n: "count_run (drop_bit (ctzll seq) seq) 0 = 0 + n"
    "\<forall>j<n. bit (drop_bit (ctzll seq) seq) j" "\<not> bit (drop_bit (ctzll seq) seq) n"
    using count_run_props by blast
  have "bit (drop_bit (ctzll seq) seq) 0"
    using ctzll_props(2) [OF assms] by (simp add: bit_drop_bit_eq)
  then have "n \<noteq> 0" using n(3) by (cases n) simp_all
  then have "bit (drop_bit (ctzll seq) seq) (n - 1)" using n(2) by simp
  then have "bit seq (ctzll seq + (n - 1))" by (simp add: bit_drop_bit_eq)
  then show ?thesis using n(1) \<open>n \<noteq> 0\<close> by (simp add: Nat.add_diff_assoc)
qed

text \<open>
  The outer loop \<open>while (seq)\<close> of \<open>find_odd_backslash_sequences\<close>, with the
  accumulator \<open>odd_ends\<close>.
\<close>

function odd_loop :: "u64 \<Rightarrow> u64 \<Rightarrow> u64" where
  "odd_loop seq odd_ends =
     (if seq \<noteq> 0 then
        let pos = ctzll seq;
            count = count_run (drop_bit pos seq) 0;
            odd_ends' = (if count AND 1 \<noteq> 0
                         then odd_ends OR push_bit (pos + count - 1) 1 else odd_ends)
        in odd_loop (seq AND (seq - push_bit (pos + count - 1) 1)) odd_ends'
      else odd_ends)"
  by pat_completeness auto
termination
  by (relation "measure (\<lambda>(seq, odd_ends). unat seq)")
     (use clear_top_decreases run_top_bit in auto)

declare odd_loop.simps [simp del]

definition find_odd_backslash_sequences :: "u64 \<Rightarrow> u64" where
  "find_odd_backslash_sequences backslashes =
     (if backslashes = 0 then 0 else odd_loop backslashes 0)"


section \<open>The structural extractor: \<open>neon_json_find_structural\<close>\<close>

lemma clear_lowest_decreases: "(f::u64) \<noteq> 0 \<Longrightarrow> unat (f AND (f - 1)) < unat f"
proof -
  assume f: "f \<noteq> 0"
  have "f AND (f - 1) \<le> f - 1" by (rule word_and_le1)
  then have "unat (f AND (f - 1)) \<le> unat (f - 1)" by (simp add: word_le_nat_alt)
  also have "unat (f - 1) = unat f - 1" using f by (simp add: unat_minus_one)
  also have "\<dots> < unat f" using f by (simp add: unat_gt_0)
  finally show ?thesis .
qed

text \<open>
  The loop \<open>while (filtered && count < max_output)\<close> that writes one entry per set
  bit of \<open>filtered\<close>; \<open>i\<close> is the offset of the chunk.
\<close>

function extract_loop ::
  "u8 list \<Rightarrow> nat \<Rightarrow> nat \<Rightarrow> u64 \<Rightarrow> nat \<Rightarrow> (nat \<Rightarrow> u32) \<Rightarrow> (nat \<Rightarrow> u8)
     \<Rightarrow> nat \<times> (nat \<Rightarrow> u32) \<times> (nat \<Rightarrow> u8)" where
  "extract_loop input max_output i filtered count positions characters =
     (if filtered \<noteq> 0 \<and> count < max_output then
        let pos = ctzll filtered
        in extract_loop input max_output i (filtered AND (filtered - 1)) (count + 1)
             (positions(count := word_of_nat (i + pos)))
             (characters(count := input ! (i + pos)))
      else (count, positions, characters))"
  by pat_completeness auto
termination
  by (relation "measure (\<lambda>(input, max_output, i, filtered, r). unat filtered)")
     (use clear_lowest_decreases in auto)

declare extract_loop.simps [simp del]

text \<open>
  The loop \<open>for (; i + 64 <= input_len && count < max_output; i += 64)\<close>.  It returns
  the variables that are live after it: \<open>i\<close>, \<open>count\<close>, \<open>prev_string_state\<close> and
  the two output arrays.
\<close>

function chunk_loop ::
  "u8 list \<Rightarrow> nat \<Rightarrow> nat \<Rightarrow> nat \<Rightarrow> u64 \<Rightarrow> (nat \<Rightarrow> u32) \<Rightarrow> (nat \<Rightarrow> u8)
     \<Rightarrow> nat \<times> nat \<times> u64 \<times> (nat \<Rightarrow> u32) \<times> (nat \<Rightarrow> u8)" where
  "chunk_loop input max_output i count prev_string_state positions characters =
     (if i + 64 \<le> length input \<and> count < max_output then
        case classify_chunk_64 (drop i input) of (structural, quotes, backslashes) \<Rightarrow>
        let odd_bs = find_odd_backslash_sequences backslashes;
            escaped_quotes = quotes AND push_bit 1 odd_bs;
            unescaped_quotes = quotes AND NOT escaped_quotes;
            string_mask = prefix_xor unescaped_quotes;
            string_mask = (if prev_string_state \<noteq> 0 then NOT string_mask else string_mask);
            prev_string_state' = parityll unescaped_quotes;
            filtered = (structural AND NOT string_mask) OR unescaped_quotes
        in case extract_loop input max_output i filtered count positions characters of
             (count', positions', characters') \<Rightarrow>
               chunk_loop input max_output (i + 64) count' prev_string_state'
                 positions' characters'
      else (i, count, prev_string_state, positions, characters))"
  by pat_completeness auto
termination
  by (relation "measure (\<lambda>(input, max_output, i, r). length input - i)") auto

declare chunk_loop.simps [simp del]

text \<open>
  The scalar loop \<open>for (; i < input_len && count < max_output; i++)\<close> over the
  remaining bytes.  The C flags \<open>in_string\<close> and \<open>prev_backslash\<close> hold 0 or 1 and are
  booleans here.
\<close>

function tail_loop ::
  "u8 list \<Rightarrow> nat \<Rightarrow> nat \<Rightarrow> nat \<Rightarrow> bool \<Rightarrow> bool \<Rightarrow> (nat \<Rightarrow> u32) \<Rightarrow> (nat \<Rightarrow> u8)
     \<Rightarrow> nat \<times> (nat \<Rightarrow> u32) \<times> (nat \<Rightarrow> u8)" where
  "tail_loop input max_output i count in_string prev_backslash positions characters =
     (if i < length input \<and> count < max_output then
        let ch = input ! i in
        if ch = 0x5C \<and> \<not> prev_backslash then
          tail_loop input max_output (i + 1) count in_string True positions characters
        else if ch = 0x22 \<and> \<not> prev_backslash then
          tail_loop input max_output (i + 1) (count + 1) (\<not> in_string) False
            (positions(count := word_of_nat i)) (characters(count := ch))
        else if \<not> in_string \<and> \<not> prev_backslash \<and>
                (ch = 0x7B \<or> ch = 0x7D \<or> ch = 0x5B \<or> ch = 0x5D \<or> ch = 0x3A \<or> ch = 0x2C) then
          tail_loop input max_output (i + 1) (count + 1) in_string False
            (positions(count := word_of_nat i)) (characters(count := ch))
        else
          tail_loop input max_output (i + 1) count in_string False positions characters
      else (count, positions, characters))"
  by pat_completeness auto
termination
  by (relation "measure (\<lambda>(input, max_output, i, r). length input - i)") auto

declare tail_loop.simps [simp del]

text \<open>
  What a call leaves behind: the returned value, the context and the two output
  arrays (\<open>None\<close> where the caller passed \<open>NULL\<close>).
\<close>

record find_result =
  ret :: int
  res_ctx :: "NeonContext option"
  res_positions :: "(nat \<Rightarrow> u32) option"
  res_characters :: "(nat \<Rightarrow> u8) option"

definition neon_json_find_structural ::
  "NeonContext option \<Rightarrow> u8 list option \<Rightarrow> (nat \<Rightarrow> u32) option \<Rightarrow> (nat \<Rightarrow> u8) option
     \<Rightarrow> nat \<Rightarrow> find_result" where
  "neon_json_find_structural ctx input positions characters max_output =
     (case (ctx, input, positions, characters) of
        (Some c, Some inp, Some ps, Some cs) \<Rightarrow>
          if length inp = 0 then
            \<lparr>ret = -1, res_ctx = ctx, res_positions = positions, res_characters = characters\<rparr>
          else
            let c' = ensure_buffers c (length inp) in
            case chunk_loop inp max_output 0 0 0 ps cs of
              (i, count, prev_string_state, ps', cs') \<Rightarrow>
            case tail_loop inp max_output i count (prev_string_state \<noteq> 0) False ps' cs' of
              (count', ps'', cs'') \<Rightarrow>
            \<lparr>ret = int count', res_ctx = Some c', res_positions = Some ps'',
             res_characters = Some cs''\<rparr>
      | _ \<Rightarrow>
          \<lparr>ret = -1, res_ctx = ctx, res_positions = positions, res_characters = characters\<rparr>)"

text \<open>The entries a call has written: the first \<open>ret\<close> elements of the two arrays.\<close>

definition emitted :: "find_result \<Rightarrow> (u32 \<times> u8) list" where
  "emitted r =
     (case (res_positions r, res_characters r) of
        (Some ps, Some cs) \<Rightarrow> map (\<lambda>j. (ps j, cs j)) [0..<nat (ret r)]
      | _ \<Rightarrow> [])"


section \<open>Verification of the byte classifier\<close>

lemma LOOKUP_updates:
  "LOOKUP = (replicate 256 9)[9 := 0, 10 := 0, 13 := 0, 32 := 0, 34 := 5, 44 := 7, 58 := 6,
     91 := 3, 92 := 8, 93 := 4, 123 := 1, 125 := 2]"
  by (simp add: LOOKUP_def eval_nat_numeral)

lemma u8_eq_numeral: "(b :: u8) = numeral k \<longleftrightarrow> unat b = unat (numeral k :: u8)"
  by (simp add: word_unat_eq_iff)

lemma LOOKUP_contract: "LOOKUP ! unat b = contract_code b"
proof -
  have n: "unat b < 256" using unsigned_less [of b] by simp
  show ?thesis
    unfolding contract_code_def u8_eq_numeral LOOKUP_updates using n
    by (simp add: nth_list_update)
qed

lemma classify_loop_eq:
  "classify_loop inp k out =
     (\<lambda>j. if k \<le> j \<and> j < length inp then LOOKUP ! unat (inp ! j) else out j)"
proof (induction inp k out rule: classify_loop.induct)
  case (1 inp i out)
  show ?case
  proof (cases "i < length inp")
    case True
    have "classify_loop inp i out =
            classify_loop inp (i + 1) (out(i := LOOKUP ! unat (inp ! i)))"
      using True by (subst classify_loop.simps) simp
    also have "\<dots> = (\<lambda>j. if i + 1 \<le> j \<and> j < length inp then LOOKUP ! unat (inp ! j)
                        else (out(i := LOOKUP ! unat (inp ! i))) j)"
      using "1.IH" [OF True] .
    also have "\<dots> = (\<lambda>j. if i \<le> j \<and> j < length inp then LOOKUP ! unat (inp ! j) else out j)"
      using True by (auto simp: fun_eq_iff)
    finally show ?thesis .
  next
    case False
    then show ?thesis by (subst classify_loop.simps) (auto simp: fun_eq_iff)
  qed
qed

text \<open>
  Claim C9.  For every input of length at least 1 (and non-null pointers),
  \<open>neon_json_classify\<close> returns 0 and leaves in the output array, at every index below
  the length, the contract code of the input byte at that index (0 for space, tab, LF,
  CR; 1 to 8 for the eight special characters; 9 for every other byte value), and
  nothing else is written.  The written codes depend on the input bytes only, so two
  calls on the same bytes give the same codes.
\<close>

theorem neon_json_classify_contract:
  "bs \<noteq> [] \<Longrightarrow>
   neon_json_classify (Some bs) (Some out) =
     (0, Some (\<lambda>i. if i < length bs then contract_code (bs ! i) else out i))"
  by (simp add: neon_json_classify_def classify_loop_eq LOOKUP_contract cong: if_cong)

theorem neon_json_classify_contract_witness:
  "[0x7B, 0x20, 0x41] \<noteq> ([] :: u8 list) \<and>
   neon_json_classify (Some [0x7B, 0x20, 0x41]) (Some (\<lambda>_. 0xEE)) =
     (0, Some (\<lambda>i. if i < 3 then [1, 0, 9] ! i else 0xEE))"
proof -
  have h: "[0x7B, 0x20, 0x41] \<noteq> ([] :: u8 list)" by simp
  have "(\<lambda>i. if i < length [0x7B, 0x20, 0x41 :: u8] then contract_code ([0x7B, 0x20, 0x41] ! i) else 0xEE)
        = (\<lambda>i. if i < 3 then [1, 0, 9] ! i else (0xEE :: u8))"
    by (auto simp: fun_eq_iff contract_code_def less_Suc_eq numeral_3_eq_3)
  then show ?thesis using neon_json_classify_contract [OF h, of "\<lambda>_. 0xEE"] h by simp
qed

section \<open>Argument errors\<close>

text \<open>
  Claim C7.  \<open>neon_json_find_structural\<close> returns -1 exactly when \<open>ctx\<close>, \<open>input\<close>,
  \<open>positions\<close> or \<open>characters\<close> is null or the input length is 0, and then both output
  arrays are as the caller passed them.  \<open>neon_json_classify\<close> returns -1 exactly when
  its input or its output is null or the length is 0, and then the output array is
  unchanged.
\<close>

theorem entry_points_error_iff:
  "(ret (neon_json_find_structural ctx input positions characters max_output) = -1 \<longleftrightarrow>
      (ctx = None \<or> input = None \<or> input = Some [] \<or> positions = None \<or> characters = None))
   \<and> (ret (neon_json_find_structural ctx input positions characters max_output) = -1 \<longrightarrow>
        res_positions (neon_json_find_structural ctx input positions characters max_output) = positions
      \<and> res_characters (neon_json_find_structural ctx input positions characters max_output) = characters)
   \<and> (fst (neon_json_classify input output) = -1 \<longleftrightarrow>
        (input = None \<or> input = Some [] \<or> output = None))
   \<and> (fst (neon_json_classify input output) = -1 \<longrightarrow> snd (neon_json_classify input output) = output)"
  by (auto simp: neon_json_find_structural_def neon_json_classify_def
           split: option.splits prod.splits if_splits)

theorem entry_points_error_iff_witness:
  "ret (neon_json_find_structural (Some \<lparr>quote_bits = None, string_mask = None, buffer_capacity = 0\<rparr>)
          (Some []) (Some (\<lambda>_. 7)) (Some (\<lambda>_. 9)) 4) = -1
   \<and> res_positions (neon_json_find_structural (Some \<lparr>quote_bits = None, string_mask = None, buffer_capacity = 0\<rparr>)
          (Some []) (Some (\<lambda>_. 7)) (Some (\<lambda>_. 9)) 4) = Some (\<lambda>_. 7)
   \<and> res_characters (neon_json_find_structural (Some \<lparr>quote_bits = None, string_mask = None, buffer_capacity = 0\<rparr>)
          (Some []) (Some (\<lambda>_. 7)) (Some (\<lambda>_. 9)) 4) = Some (\<lambda>_. 9)
   \<and> fst (neon_json_classify (Some []) (Some (\<lambda>_. 9))) = -1
   \<and> snd (neon_json_classify (Some []) (Some (\<lambda>_. 9))) = Some (\<lambda>_. 9)"
  using entry_points_error_iff [of "Some \<lparr>quote_bits = None, string_mask = None, buffer_capacity = 0\<rparr>"
      "Some []" "Some (\<lambda>_. 7)" "Some (\<lambda>_. 9)" 4 "Some (\<lambda>_. 9)"]
  by simp

end
